theory Spec2Isabelle
  imports Main "HOL-Library.Word" "HOL-Library.Signed_Division"
begin

unbundle bit_operations_syntax

section \<open>The camera callback notifier (CallbackNotifier.cpp)\<close>

text \<open>
  A shallow embedding of the class \<open>CallbackNotifier\<close> of the emulated camera HAL.
  Every public method takes \<open>mObjectLock\<close> for its whole body, so a method is one atomic
  step on the object's fields: the model passes the fields in and returns them updated.
  The verbose trace output (\<open>LOGV\<close>, \<open>PrintMessages\<close>) touches neither the fields nor the
  callbacks and is left out.
\<close>

subsection \<open>Data\<close>

text \<open>
  A nullable C pointer. Function pointers, the opaque cookie and buffer addresses carry
  an address (a \<open>nat\<close>); a pointer to a structure carries the structure it points to.
\<close>

datatype 'a ptr = NULL | Ptr 'a

text \<open>\<open>nsecs_t\<close> is \<open>int64_t\<close>: a 64-bit word read as two's complement (\<open>sint\<close>, \<open>\<le>s\<close>).\<close>

type_synonym nsecs_t = "64 word"

text \<open>\<open>uint\<close>, \<open>uint32_t\<close> and \<open>int\<close> are 32 bits wide.\<close>

type_synonym uint = "32 word"
type_synonym cint = "32 word"

text \<open>The two status codes the file returns.\<close>

datatype status_t = NO_ERROR | INVALID_OPERATION

text \<open>
  The two ways a method can fail to return: a call through a null function pointer and an
  integer division by zero.
\<close>

datatype fault = NullFunctionCall | DivideByZero

text \<open>\<open>camera_memory_t\<close>: of the structure the allocator hands back only \<open>data\<close> is read.\<close>

record camera_memory_t =
  data :: "nat ptr"

text \<open>Of the camera device the notifier only asks the size of a frame buffer.\<close>

record EmulatedCameraDevice =
  getFrameBufferSize :: nat

text \<open>The fields of the class, in the order of the constructor's initialiser list.\<close>

record CallbackNotifier =
  mNotifyCB :: "nat ptr"
  mDataCB :: "nat ptr"
  mDataCBTimestamp :: "nat ptr"
  mGetMemoryCB :: "nat ptr"
  mCBOpaque :: "nat ptr"
  mLastFrameTimestamp :: nsecs_t
  mFrameRefreshFreq :: nsecs_t
  mMessageEnabler :: uint
  mVideoRecEnabled :: bool

text \<open>
  \<open>lCameraMessages\<close> lists the message names by bit position; \<open>CAMERA_MSG_VIDEO_FRAME\<close>
  is entry 5, that is bit 5.
\<close>

definition CAMERA_MSG_VIDEO_FRAME :: uint where
  "CAMERA_MSG_VIDEO_FRAME = 0x20"

text \<open>
  What a call of \<open>onNextFrameAvailable\<close> does to the outside world, in order: the call of
  the request-memory callback (callee, fd, buffer size, number of buffers, user), the copy
  of the frame (destination, source, length), the call of the timestamped-data callback
  (callee, timestamp, message type, buffer, index, user) and the error log.
\<close>

datatype event =
    GetMemory "nat ptr" cint nat uint "nat ptr"
  | Memcpy "nat ptr" "nat ptr" nat
  | DataCBTimestamp "nat ptr" nsecs_t uint "camera_memory_t ptr" uint "nat ptr"
  | LogE

text \<open>
  The behaviour of a \<open>camera_request_memory\<close> function: from (fd, buffer size, number of
  buffers, user) to the \<open>camera_memory_t*\<close> it returns. The consumer's code is not part
  of the file; the functions take it as a parameter, indexed by the function's address.
\<close>

type_synonym camera_request_memory = "cint \<Rightarrow> nat \<Rightarrow> uint \<Rightarrow> nat ptr \<Rightarrow> camera_memory_t ptr"

subsection \<open>Constructor and camera API\<close>

definition CallbackNotifier :: CallbackNotifier where
  "CallbackNotifier =
     \<lparr> mNotifyCB = NULL, mDataCB = NULL, mDataCBTimestamp = NULL, mGetMemoryCB = NULL,
       mCBOpaque = NULL, mLastFrameTimestamp = 0, mFrameRefreshFreq = 0,
       mMessageEnabler = 0, mVideoRecEnabled = False \<rparr>"

definition setCallbacks ::
  "nat ptr \<Rightarrow> nat ptr \<Rightarrow> nat ptr \<Rightarrow> nat ptr \<Rightarrow> nat ptr \<Rightarrow> CallbackNotifier \<Rightarrow> CallbackNotifier" where
  "setCallbacks notify_cb data_cb data_cb_timestamp get_memory user s =
     s\<lparr> mNotifyCB := notify_cb, mDataCB := data_cb, mDataCBTimestamp := data_cb_timestamp,
        mGetMemoryCB := get_memory, mCBOpaque := user \<rparr>"

definition enableMessage :: "uint \<Rightarrow> CallbackNotifier \<Rightarrow> CallbackNotifier" where
  "enableMessage msg_type s = s\<lparr> mMessageEnabler := mMessageEnabler s OR msg_type \<rparr>"

definition disableMessage :: "uint \<Rightarrow> CallbackNotifier \<Rightarrow> CallbackNotifier" where
  "disableMessage msg_type s = s\<lparr> mMessageEnabler := mMessageEnabler s AND NOT msg_type \<rparr>"

text \<open>The \<open>int\<close> returned is the bit pattern of \<open>mMessageEnabler & ~msg_type\<close>.\<close>

definition isMessageEnabled :: "uint \<Rightarrow> CallbackNotifier \<Rightarrow> cint" where
  "isMessageEnabled msg_type s = mMessageEnabler s AND NOT msg_type"

text \<open>A C integer used as a condition is true when it is not zero.\<close>

definition truth :: "cint \<Rightarrow> bool" where
  "truth v = (v \<noteq> 0)"

text \<open>
  \<open>1000000000LL / fps\<close>: \<open>fps\<close> is widened to 64 bits with its sign and the quotient is
  rounded towards zero (\<open>sdiv\<close> on \<open>int\<close>). The two assignments before the division have
  happened when a zero \<open>fps\<close> stops the method.
\<close>

definition enableVideoRecording ::
  "cint \<Rightarrow> CallbackNotifier \<Rightarrow> CallbackNotifier \<times> (fault + status_t)" where
  "enableVideoRecording fps s =
     (let s1 = s\<lparr> mVideoRecEnabled := True, mLastFrameTimestamp := 0 \<rparr>
      in if fps = 0 then (s1, Inl DivideByZero)
         else (s1\<lparr> mFrameRefreshFreq := word_of_int (1000000000 sdiv sint fps) \<rparr>,
               Inr NO_ERROR))"

definition disableVideoRecording :: "CallbackNotifier \<Rightarrow> CallbackNotifier" where
  "disableVideoRecording s =
     s\<lparr> mVideoRecEnabled := False, mLastFrameTimestamp := 0, mFrameRefreshFreq := 0 \<rparr>"

definition isVideoRecordingEnabled :: "CallbackNotifier \<Rightarrow> bool" where
  "isVideoRecordingEnabled s = mVideoRecEnabled s"

definition releaseRecordingFrame :: "nat ptr \<Rightarrow> CallbackNotifier \<Rightarrow> CallbackNotifier" where
  "releaseRecordingFrame opaque s = s"

definition storeMetaDataInBuffers :: "bool \<Rightarrow> CallbackNotifier \<Rightarrow> status_t" where
  "storeMetaDataInBuffers enable s = INVALID_OPERATION"

subsection \<open>Public and private API\<close>

definition cleanupCBNotifier :: "CallbackNotifier \<Rightarrow> CallbackNotifier" where
  "cleanupCBNotifier s =
     s\<lparr> mMessageEnabler := 0, mNotifyCB := NULL, mDataCB := NULL, mDataCBTimestamp := NULL,
        mGetMemoryCB := NULL, mCBOpaque := NULL, mLastFrameTimestamp := 0,
        mFrameRefreshFreq := 0, mVideoRecEnabled := False \<rparr>"

text \<open>
  The subtraction is that of the 64-bit machine (it wraps); the comparison is signed.
\<close>

definition isNewVideoFrameTime :: "nsecs_t \<Rightarrow> CallbackNotifier \<Rightarrow> bool \<times> CallbackNotifier" where
  "isNewVideoFrameTime timestamp s =
     (if mFrameRefreshFreq s \<le>s timestamp - mLastFrameTimestamp s
      then (True, s\<lparr> mLastFrameTimestamp := timestamp \<rparr>)
      else (False, s))"

text \<open>
  The guard is evaluated left to right and stops at the first false conjunct, so
  \<open>isNewVideoFrameTime\<close> runs, and may store the timestamp, only when the three tests
  before it hold. \<open>mGetMemoryCB\<close> is called without a test: when it is null the call faults,
  after the timestamp was stored. The callbacks run under the lock and cannot reach the
  fields.
\<close>

definition onNextFrameAvailable ::
  "(nat \<Rightarrow> camera_request_memory) \<Rightarrow> nat ptr \<Rightarrow> nsecs_t \<Rightarrow> EmulatedCameraDevice \<Rightarrow>
     CallbackNotifier \<Rightarrow> CallbackNotifier \<times> event list \<times> (fault + unit)" where
  "onNextFrameAvailable code frame timestamp camera_dev s =
     (if (mMessageEnabler s AND CAMERA_MSG_VIDEO_FRAME) \<noteq> 0 \<and>
         mDataCBTimestamp s \<noteq> NULL \<and> mVideoRecEnabled s
      then
        (case isNewVideoFrameTime timestamp s of
           (False, s') \<Rightarrow> (s', [], Inr ())
         | (True, s') \<Rightarrow>
             (case mGetMemoryCB s' of
                NULL \<Rightarrow> (s', [], Inl NullFunctionCall)
              | Ptr f \<Rightarrow>
                  (let call = GetMemory (Ptr f) (- 1) (getFrameBufferSize camera_dev) 1 NULL;
                       cam_buff = code f (- 1) (getFrameBufferSize camera_dev) 1 NULL
                   in case cam_buff of
                        NULL \<Rightarrow> (s', [call, LogE], Inr ())
                      | Ptr m \<Rightarrow>
                          (if data m \<noteq> NULL
                           then (s', [call,
                                      Memcpy (data m) frame (getFrameBufferSize camera_dev),
                                      DataCBTimestamp (mDataCBTimestamp s') timestamp
                                        CAMERA_MSG_VIDEO_FRAME cam_buff 0 (mCBOpaque s')],
                                 Inr ())
                           else (s', [call, LogE], Inr ())))))
      else (s, [], Inr ()))"

subsection \<open>The producer and what the consumer observes\<close>

text \<open>
  The camera device calls \<open>onNextFrameAvailable\<close> once for every captured frame, in
  order. A fault ends the run.
\<close>

fun feedFrames ::
  "(nat \<Rightarrow> camera_request_memory) \<Rightarrow> EmulatedCameraDevice \<Rightarrow> (nat ptr \<times> nsecs_t) list \<Rightarrow>
     CallbackNotifier \<Rightarrow> CallbackNotifier \<times> event list \<times> (fault + unit)" where
  "feedFrames code camera_dev [] s = (s, [], Inr ())"
| "feedFrames code camera_dev ((frame, timestamp) # rest) s =
     (case onNextFrameAvailable code frame timestamp camera_dev s of
        (s', evs, Inl e) \<Rightarrow> (s', evs, Inl e)
      | (s', evs, Inr u) \<Rightarrow>
          (case feedFrames code camera_dev rest s' of
             (s'', evs', r) \<Rightarrow> (s'', evs @ evs', r)))"

text \<open>The buffer sizes of the allocator calls in a trace.\<close>

fun allocated :: "event list \<Rightarrow> nat list" where
  "allocated [] = []"
| "allocated (GetMemory f fd n k u # es) = n # allocated es"
| "allocated (e # es) = allocated es"

text \<open>The timestamp and index of the timestamped-data callback invocations in a trace.\<close>

fun delivered :: "event list \<Rightarrow> (nsecs_t \<times> uint) list" where
  "delivered [] = []"
| "delivered (DataCBTimestamp f t msg m i u # es) = (t, i) # delivered es"
| "delivered (e # es) = delivered es"

text \<open>A consumer-side allocator that always hands back a buffer at address 4096.\<close>

definition fixedBuffer :: "nat \<Rightarrow> camera_request_memory" where
  "fixedBuffer f fd buf_size num_bufs user = Ptr \<lparr> data = Ptr 4096 \<rparr>"

section \<open>Auxiliary facts\<close>

lemma word_or_and_not: "(m OR b) AND NOT b = m AND NOT b" for m b :: "'a::len word"
  by (auto simp add: bit_eq_iff bit_simps)

lemma word_and_not_self_iff: "(m AND NOT b = m) = (m AND b = 0)" for m b :: "'a::len word"
  by (auto simp add: bit_eq_iff bit_simps)

lemma interval_sdiv_pos: "0 < k \<Longrightarrow> (1000000000::int) sdiv k = 1000000000 div k"
  by (simp add: signed_divide_int_def)

lemma interval_sdiv_neg: "k < 0 \<Longrightarrow> (1000000000::int) sdiv k = - (1000000000 div (- k))"
  by (simp add: signed_divide_int_def)

lemma interval_div_bounds:
  "0 < k \<Longrightarrow> 0 \<le> (1000000000::int) div k \<and> (1000000000::int) div k \<le> 1000000000"
  using zdiv_mono2 [of 1000000000 1 k] by (simp add: pos_imp_zdiv_nonneg_iff)

lemma sint_interval:
  "- 1000000000 \<le> k \<Longrightarrow> k \<le> 1000000000 \<Longrightarrow> sint (word_of_int k :: 64 word) = k"
  by (simp add: signed_take_bit_int_eq_self signed_of_int)

lemma enableVideoRecording_fields:
  "fps \<noteq> 0 \<Longrightarrow> enableVideoRecording fps s =
     (s\<lparr> mVideoRecEnabled := True, mLastFrameTimestamp := 0,
         mFrameRefreshFreq := word_of_int (1000000000 sdiv sint fps) \<rparr>, Inr NO_ERROR)"
  by (simp add: enableVideoRecording_def)

lemma interval_of_positive_fps:
  assumes "0 <s fps"
  shows "sint (mFrameRefreshFreq (fst (enableVideoRecording fps s))) = 1000000000 div sint fps"
proof -
  from assms have p: "0 < sint fps" by (simp add: word_sless_alt)
  then have nz: "fps \<noteq> 0" by auto
  from p interval_div_bounds [OF p] show ?thesis
    by (simp add: enableVideoRecording_fields [OF nz] interval_sdiv_pos sint_interval)
qed

lemma interval_of_negative_fps:
  assumes "fps <s 0"
  shows "sint (mFrameRefreshFreq (fst (enableVideoRecording fps s))) =
           - (1000000000 div (- sint fps))"
proof -
  from assms have p: "sint fps < 0" by (simp add: word_sless_alt)
  then have nz: "fps \<noteq> 0" by auto
  have "mFrameRefreshFreq (fst (enableVideoRecording fps s)) =
          word_of_int (1000000000 sdiv sint fps)"
    by (simp add: enableVideoRecording_fields [OF nz])
  also have "sint \<dots> = 1000000000 sdiv sint fps"
    using p interval_div_bounds [of "- sint fps"]
    by (intro sint_interval) (simp_all only: interval_sdiv_neg, simp_all)
  finally show ?thesis using p by (simp only: interval_sdiv_neg)
qed

text \<open>
  The state of the end-to-end scenario: a callback set installed, the video-frame message
  enabled, recording started at 30 frames per second.
\<close>

lemma recording_at_30_fps:
  "enableVideoRecording 30
     (enableMessage CAMERA_MSG_VIDEO_FRAME (setCallbacks n d ts g u CallbackNotifier)) =
   (\<lparr> mNotifyCB = n, mDataCB = d, mDataCBTimestamp = ts, mGetMemoryCB = g,
      mCBOpaque = u, mLastFrameTimestamp = 0, mFrameRefreshFreq = 33333333,
      mMessageEnabler = 0x20, mVideoRecEnabled = True \<rparr>, Inr NO_ERROR)"
  by (simp add: enableVideoRecording_def enableMessage_def setCallbacks_def
      CallbackNotifier_def CAMERA_MSG_VIDEO_FRAME_def signed_divide_int_def)

text \<open>
  What the query of the mask computes: it is true exactly when some bit outside the
  requested ones is set.
\<close>

lemma word_nonzero_bit: "(w \<noteq> 0) = (\<exists>n. bit w n)" for w :: "32 word"
proof
  assume "w \<noteq> 0"
  then show "\<exists>n. bit w n" by (auto simp add: bit_eq_iff)
next
  assume "\<exists>n. bit w n"
  then show "w \<noteq> 0" by auto
qed

lemma isMessageEnabled_other_bits:
  "truth (isMessageEnabled msg_type s) = (\<exists>n. bit (mMessageEnabler s) n \<and> \<not> bit msg_type n)"
proof -
  have "bit (mMessageEnabler s AND NOT msg_type) n =
          (bit (mMessageEnabler s) n \<and> \<not> bit msg_type n)" for n
    by (auto simp add: bit_simps dest: bit_imp_le_length)
  then show ?thesis
    by (simp add: truth_def isMessageEnabled_def word_nonzero_bit)
qed

section \<open>The message mask\<close>

text \<open>
  Claim C1 asks that \<open>isMessageEnabled\<close> be true exactly when all requested bits are set
  in the mask, \<open>(mask & bits) == bits\<close>. The method returns \<open>mask & ~bits\<close> instead. With
  the video-frame message enabled and nothing else, the query for the video-frame message
  returns 0 (false) although the bit is set; with only bit 0 set, the same query returns 1
  (true) although the video-frame bit is clear.
\<close>

theorem isMessageEnabled_inverted:
  "mMessageEnabler (enableMessage CAMERA_MSG_VIDEO_FRAME CallbackNotifier) AND CAMERA_MSG_VIDEO_FRAME
     = CAMERA_MSG_VIDEO_FRAME \<and>
   isMessageEnabled CAMERA_MSG_VIDEO_FRAME (enableMessage CAMERA_MSG_VIDEO_FRAME CallbackNotifier) = 0 \<and>
   mMessageEnabler (enableMessage 1 CallbackNotifier) AND CAMERA_MSG_VIDEO_FRAME
     \<noteq> CAMERA_MSG_VIDEO_FRAME \<and>
   truth (isMessageEnabled CAMERA_MSG_VIDEO_FRAME (enableMessage 1 CallbackNotifier))"
  by (simp add: isMessageEnabled_def enableMessage_def CallbackNotifier_def
      CAMERA_MSG_VIDEO_FRAME_def truth_def)

text \<open>
  Claim C7, as amended: \<open>enableMessage b\<close> followed by \<open>disableMessage b\<close> leaves the mask
  with every bit of \<open>b\<close> clear, \<open>mask & ~b\<close>. That is the mask from before exactly when no
  bit of \<open>b\<close> was set in it. Neither call changes a bit outside \<open>b\<close>, and neither touches
  another field.
\<close>

theorem enable_then_disable_clears:
  "disableMessage b (enableMessage b s) = s\<lparr> mMessageEnabler := mMessageEnabler s AND NOT b \<rparr> \<and>
   ((disableMessage b (enableMessage b s) = s) = (mMessageEnabler s AND b = 0)) \<and>
   (\<forall>n. \<not> bit b n \<longrightarrow>
      bit (mMessageEnabler (enableMessage b s)) n = bit (mMessageEnabler s) n \<and>
      bit (mMessageEnabler (disableMessage b s)) n = bit (mMessageEnabler s) n)"
proof (intro conjI allI impI)
  show "disableMessage b (enableMessage b s) = s\<lparr> mMessageEnabler := mMessageEnabler s AND NOT b \<rparr>"
    by (simp add: enableMessage_def disableMessage_def word_or_and_not)
  show "(disableMessage b (enableMessage b s) = s) = (mMessageEnabler s AND b = 0)"
    by (cases s) (simp add: enableMessage_def disableMessage_def word_or_and_not
        word_and_not_self_iff)
next
  fix n assume "\<not> bit b n"
  then show "bit (mMessageEnabler (enableMessage b s)) n = bit (mMessageEnabler s) n"
    by (simp add: enableMessage_def bit_simps)
next
  fix n assume "\<not> bit b n"
  then show "bit (mMessageEnabler (disableMessage b s)) n = bit (mMessageEnabler s) n"
    by (auto simp add: disableMessage_def bit_simps dest: bit_imp_le_length)
qed

text \<open>
  An instance: the preview-frame message (bit 4) is enabled, the video-frame message
  (bit 5) is enabled and disabled again. The mask is as before, and bit 4 stays set
  throughout.
\<close>

theorem enable_then_disable_clears_witness:
  "mMessageEnabler (enableMessage 0x10 CallbackNotifier) AND CAMERA_MSG_VIDEO_FRAME = 0 \<and>
   disableMessage CAMERA_MSG_VIDEO_FRAME
     (enableMessage CAMERA_MSG_VIDEO_FRAME (enableMessage 0x10 CallbackNotifier)) =
   enableMessage 0x10 CallbackNotifier \<and>
   \<not> bit CAMERA_MSG_VIDEO_FRAME 4 \<and>
   bit (mMessageEnabler
         (enableMessage CAMERA_MSG_VIDEO_FRAME (enableMessage 0x10 CallbackNotifier))) 4 \<and>
   bit (mMessageEnabler
         (disableMessage CAMERA_MSG_VIDEO_FRAME (enableMessage 0x10 CallbackNotifier))) 4"
  using enable_then_disable_clears
    [of CAMERA_MSG_VIDEO_FRAME "enableMessage 0x10 CallbackNotifier"]
  by (simp add: enableMessage_def disableMessage_def CallbackNotifier_def
      CAMERA_MSG_VIDEO_FRAME_def)

text \<open>
  The mask is not restored when a bit of \<open>b\<close> was set before: with the video-frame
  message already enabled, enabling and disabling it leaves the mask 0, not 0x20.
\<close>

theorem enable_then_disable_not_restoring:
  "mMessageEnabler (enableMessage CAMERA_MSG_VIDEO_FRAME CallbackNotifier) = 0x20 \<and>
   mMessageEnabler
     (disableMessage CAMERA_MSG_VIDEO_FRAME
       (enableMessage CAMERA_MSG_VIDEO_FRAME
         (enableMessage CAMERA_MSG_VIDEO_FRAME CallbackNotifier))) = 0 \<and>
   disableMessage CAMERA_MSG_VIDEO_FRAME
     (enableMessage CAMERA_MSG_VIDEO_FRAME
       (enableMessage CAMERA_MSG_VIDEO_FRAME CallbackNotifier))
     \<noteq> enableMessage CAMERA_MSG_VIDEO_FRAME CallbackNotifier"
  by (simp add: enableMessage_def disableMessage_def CallbackNotifier_def
      CAMERA_MSG_VIDEO_FRAME_def)

section \<open>Teardown\<close>

text \<open>
  Claim C9: after \<open>cleanupCBNotifier\<close> the object is as the constructor leaves it, whatever
  it was before: mask 0, the four callbacks and the opaque cookie null, recording
  disabled, last timestamp and frame interval 0. So every query answers as on a new object.
\<close>

theorem cleanupCBNotifier_as_constructed:
  "cleanupCBNotifier s = CallbackNotifier \<and>
   isVideoRecordingEnabled (cleanupCBNotifier s) = False \<and>
   mMessageEnabler (cleanupCBNotifier s) = 0 \<and>
   isMessageEnabled msg_type (cleanupCBNotifier s) = isMessageEnabled msg_type CallbackNotifier \<and>
   mNotifyCB (cleanupCBNotifier s) = NULL \<and>
   mDataCB (cleanupCBNotifier s) = NULL \<and>
   mDataCBTimestamp (cleanupCBNotifier s) = NULL \<and>
   mGetMemoryCB (cleanupCBNotifier s) = NULL \<and>
   mCBOpaque (cleanupCBNotifier s) = NULL \<and>
   mLastFrameTimestamp (cleanupCBNotifier s) = 0 \<and>
   mFrameRefreshFreq (cleanupCBNotifier s) = 0"
  by (simp add: cleanupCBNotifier_def CallbackNotifier_def isVideoRecordingEnabled_def
      isMessageEnabled_def)

section \<open>Frame-rate admission\<close>

text \<open>
  Claim C6: for every timestamp and every state of the object, \<open>isNewVideoFrameTime\<close>
  returns true exactly when \<open>timestamp - mLastFrameTimestamp >= mFrameRefreshFreq\<close>, and
  then stores the timestamp; when it returns false the state is unchanged. So after a
  rejected call a later admitted one is judged against the old reference and stores
  its own timestamp. The difference is the 64-bit one of the code; it is the
  difference of the two numbers whenever that fits in 64 bits.
\<close>

theorem isNewVideoFrameTime_admits:
  "fst (isNewVideoFrameTime t s) = (mFrameRefreshFreq s \<le>s t - mLastFrameTimestamp s) \<and>
   (fst (isNewVideoFrameTime t s) \<longrightarrow>
      snd (isNewVideoFrameTime t s) = s\<lparr> mLastFrameTimestamp := t \<rparr>) \<and>
   (\<not> fst (isNewVideoFrameTime t s) \<longrightarrow> snd (isNewVideoFrameTime t s) = s) \<and>
   (- (2 ^ 63) \<le> sint t - sint (mLastFrameTimestamp s) \<and>
    sint t - sint (mLastFrameTimestamp s) < 2 ^ 63 \<longrightarrow>
      fst (isNewVideoFrameTime t s) =
        (sint (mFrameRefreshFreq s) \<le> sint t - sint (mLastFrameTimestamp s))) \<and>
   (\<not> fst (isNewVideoFrameTime t2 s) \<and>
    fst (isNewVideoFrameTime t3 (snd (isNewVideoFrameTime t2 s))) \<longrightarrow>
      mFrameRefreshFreq s \<le>s t3 - mLastFrameTimestamp s \<and>
      snd (isNewVideoFrameTime t3 (snd (isNewVideoFrameTime t2 s))) =
        s\<lparr> mLastFrameTimestamp := t3 \<rparr>)"
proof (intro conjI impI)
  show "fst (isNewVideoFrameTime t s) = (mFrameRefreshFreq s \<le>s t - mLastFrameTimestamp s)"
    by (simp add: isNewVideoFrameTime_def)
  show "snd (isNewVideoFrameTime t s) = s\<lparr> mLastFrameTimestamp := t \<rparr>"
    if "fst (isNewVideoFrameTime t s)"
    using that by (simp add: isNewVideoFrameTime_def split: if_splits)
  show "snd (isNewVideoFrameTime t s) = s" if "\<not> fst (isNewVideoFrameTime t s)"
    using that by (simp add: isNewVideoFrameTime_def split: if_splits)
  show "fst (isNewVideoFrameTime t s) =
          (sint (mFrameRefreshFreq s) \<le> sint t - sint (mLastFrameTimestamp s))"
    if "- (2 ^ 63) \<le> sint t - sint (mLastFrameTimestamp s) \<and>
        sint t - sint (mLastFrameTimestamp s) < 2 ^ 63"
    using that
    by (simp add: isNewVideoFrameTime_def word_sle_eq sint_word_ariths
        signed_take_bit_int_eq_self)
next
  assume a: "\<not> fst (isNewVideoFrameTime t2 s) \<and>
             fst (isNewVideoFrameTime t3 (snd (isNewVideoFrameTime t2 s)))"
  then have r: "snd (isNewVideoFrameTime t2 s) = s"
    by (simp add: isNewVideoFrameTime_def split: if_splits)
  from a show "mFrameRefreshFreq s \<le>s t3 - mLastFrameTimestamp s"
    by (simp add: r) (simp add: isNewVideoFrameTime_def split: if_splits)
  from a show "snd (isNewVideoFrameTime t3 (snd (isNewVideoFrameTime t2 s))) =
                 s\<lparr> mLastFrameTimestamp := t3 \<rparr>"
    by (simp add: r) (simp add: isNewVideoFrameTime_def split: if_splits)
qed

text \<open>
  An instance at 30 frames per second, from the reference 0: 40 ms is admitted and
  stored, 10 ms is rejected and changes nothing, and 40 ms after the rejected 10 ms is
  admitted and stored.
\<close>

theorem isNewVideoFrameTime_admits_witness:
  "fst (isNewVideoFrameTime 40000000 (fst (enableVideoRecording 30 CallbackNotifier))) \<and>
   snd (isNewVideoFrameTime 40000000 (fst (enableVideoRecording 30 CallbackNotifier))) =
     (fst (enableVideoRecording 30 CallbackNotifier))\<lparr> mLastFrameTimestamp := 40000000 \<rparr> \<and>
   \<not> fst (isNewVideoFrameTime 10000000 (fst (enableVideoRecording 30 CallbackNotifier))) \<and>
   snd (isNewVideoFrameTime 10000000 (fst (enableVideoRecording 30 CallbackNotifier))) =
     fst (enableVideoRecording 30 CallbackNotifier) \<and>
   - (2 ^ 63) \<le> sint (40000000 :: nsecs_t) -
       sint (mLastFrameTimestamp (fst (enableVideoRecording 30 CallbackNotifier))) \<and>
   sint (40000000 :: nsecs_t) -
       sint (mLastFrameTimestamp (fst (enableVideoRecording 30 CallbackNotifier))) < 2 ^ 63 \<and>
   sint (mFrameRefreshFreq (fst (enableVideoRecording 30 CallbackNotifier))) \<le>
     sint (40000000 :: nsecs_t) -
       sint (mLastFrameTimestamp (fst (enableVideoRecording 30 CallbackNotifier))) \<and>
   fst (isNewVideoFrameTime 40000000
         (snd (isNewVideoFrameTime 10000000 (fst (enableVideoRecording 30 CallbackNotifier))))) \<and>
   snd (isNewVideoFrameTime 40000000
         (snd (isNewVideoFrameTime 10000000 (fst (enableVideoRecording 30 CallbackNotifier))))) =
     (fst (enableVideoRecording 30 CallbackNotifier))\<lparr> mLastFrameTimestamp := 40000000 \<rparr>"
  using isNewVideoFrameTime_admits
      [of 40000000 "fst (enableVideoRecording 30 CallbackNotifier)" 10000000 40000000]
    isNewVideoFrameTime_admits
      [of 10000000 "fst (enableVideoRecording 30 CallbackNotifier)" 10000000 40000000]
  by (simp add: isNewVideoFrameTime_def enableVideoRecording_def CallbackNotifier_def
      signed_divide_int_def word_sle_eq)

text \<open>
  Claim C4, as amended: for every \<open>fps > 0\<close>, \<open>enableVideoRecording fps\<close> succeeds, and the
  first admission check after it admits a timestamp exactly when the timestamp is at
  least the frame interval \<open>1000000000 / fps\<close>. Every timestamp of one second or more
  is therefore admitted, whatever the rate.
\<close>

theorem first_frame_admitted_iff:
  assumes "0 <s fps"
  shows "snd (enableVideoRecording fps s) = Inr NO_ERROR \<and>
         fst (isNewVideoFrameTime t (fst (enableVideoRecording fps s))) =
           (1000000000 div sint fps \<le> sint t) \<and>
         (1000000000 \<le>s t \<longrightarrow> fst (isNewVideoFrameTime t (fst (enableVideoRecording fps s))))"
proof -
  from assms have p: "0 < sint fps" by (simp add: word_sless_alt)
  then have nz: "fps \<noteq> 0" by auto
  have l: "mLastFrameTimestamp (fst (enableVideoRecording fps s)) = 0"
    by (simp add: enableVideoRecording_fields [OF nz])
  have adm: "fst (isNewVideoFrameTime t (fst (enableVideoRecording fps s))) =
               (1000000000 div sint fps \<le> sint t)"
    using interval_of_positive_fps [OF assms, of s]
    by (simp add: isNewVideoFrameTime_def l word_sle_eq)
  have "1000000000 div sint fps \<le> sint t" if "1000000000 \<le>s t"
    using that interval_div_bounds [OF p] by (simp add: word_sle_eq)
  with adm show ?thesis
    by (simp add: enableVideoRecording_fields [OF nz])
qed

text \<open>
  An instance at 30 frames per second: the interval is 33333333 ns; a first frame at
  33333333 ns is admitted, one at 33333332 ns is not, one at a full second is.
\<close>

theorem first_frame_admitted_iff_witness:
  "(0 :: cint) <s 30 \<and> (1000000000 :: int) div sint (30 :: cint) = 33333333 \<and>
   fst (isNewVideoFrameTime 33333333 (fst (enableVideoRecording 30 CallbackNotifier))) \<and>
   \<not> fst (isNewVideoFrameTime 33333332 (fst (enableVideoRecording 30 CallbackNotifier))) \<and>
   (1000000000 :: nsecs_t) \<le>s 1000000000 \<and>
   fst (isNewVideoFrameTime 1000000000 (fst (enableVideoRecording 30 CallbackNotifier)))"
  using first_frame_admitted_iff [of 30 CallbackNotifier 33333333]
    first_frame_admitted_iff [of 30 CallbackNotifier 33333332]
    first_frame_admitted_iff [of 30 CallbackNotifier 1000000000]
  by (simp add: word_sless_alt word_sle_eq)

text \<open>
  A first frame at timestamp 0 is not admitted at 30 frames per second: 0 - 0 is below
  the interval of 33333333 ns.
\<close>

theorem first_frame_at_zero_rejected:
  "(0 :: cint) <s 30 \<and> (0 :: nsecs_t) \<le>s 0 \<and>
   snd (enableVideoRecording 30 CallbackNotifier) = Inr NO_ERROR \<and>
   \<not> fst (isNewVideoFrameTime 0 (fst (enableVideoRecording 30 CallbackNotifier)))"
  by (simp add: isNewVideoFrameTime_def enableVideoRecording_def CallbackNotifier_def
      signed_divide_int_def word_sle_eq word_sless_alt)

text \<open>
  Claim C3, as amended: for every \<open>fps < 0\<close>, \<open>enableVideoRecording fps\<close> returns
  \<open>NO_ERROR\<close> and starts recording: the enabled flag is set, the last timestamp is 0 and
  the frame interval is \<open>1000000000 / fps\<close> rounded towards zero, a number that is not
  positive. The other fields are untouched.
\<close>

theorem enableVideoRecording_negative_fps:
  assumes "fps <s 0"
  shows "enableVideoRecording fps s =
           (s\<lparr> mVideoRecEnabled := True, mLastFrameTimestamp := 0,
               mFrameRefreshFreq := mFrameRefreshFreq (fst (enableVideoRecording fps s)) \<rparr>,
            Inr NO_ERROR) \<and>
         sint (mFrameRefreshFreq (fst (enableVideoRecording fps s))) =
           - (1000000000 div (- sint fps)) \<and>
         sint (mFrameRefreshFreq (fst (enableVideoRecording fps s))) \<le> 0"
proof -
  from assms have p: "sint fps < 0" by (simp add: word_sless_alt)
  then have nz: "fps \<noteq> 0" by auto
  have "0 \<le> 1000000000 div (- sint fps)"
    using p interval_div_bounds [of "- sint fps"] by simp
  then show ?thesis
    by (simp add: interval_of_negative_fps [OF assms])
       (simp add: enableVideoRecording_fields [OF nz])
qed

text \<open>An instance: \<open>fps = -30\<close> on a new object gives the interval -33333333 ns.\<close>

theorem enableVideoRecording_negative_fps_witness:
  "(- 30 :: cint) <s 0 \<and>
   enableVideoRecording (- 30) CallbackNotifier =
     (CallbackNotifier\<lparr> mVideoRecEnabled := True, mLastFrameTimestamp := 0,
                        mFrameRefreshFreq := - 33333333 \<rparr>, Inr NO_ERROR) \<and>
   sint (- 33333333 :: nsecs_t) = - (1000000000 div (- sint (- 30 :: cint)))"
  using enableVideoRecording_negative_fps [of "- 30" CallbackNotifier]
  by (simp add: enableVideoRecording_def CallbackNotifier_def signed_divide_int_def
      word_sless_alt)

text \<open>
  The method has no test of its argument: with \<open>fps = -1\<close> on a new object it returns
  \<open>NO_ERROR\<close>, and the object is not as before.
\<close>

theorem enableVideoRecording_no_argument_check:
  "(- 1 :: cint) \<le>s 0 \<and>
   enableVideoRecording (- 1) CallbackNotifier =
     (CallbackNotifier\<lparr> mVideoRecEnabled := True, mFrameRefreshFreq := - 1000000000 \<rparr>,
      Inr NO_ERROR) \<and>
   fst (enableVideoRecording (- 1) CallbackNotifier) \<noteq> CallbackNotifier"
  by (simp add: enableVideoRecording_def CallbackNotifier_def signed_divide_int_def
      word_sle_eq)

section \<open>The frame dispatcher\<close>

text \<open>
  Claim C8: a call of \<open>onNextFrameAvailable\<close> made while no callback set is installed
  (so the timestamped-data callback is null), or while the video-frame bit is clear in
  the mask, or while recording is disabled, calls neither the allocator nor the
  timestamped-data callback, for every frame, timestamp and device: it returns with an
  empty trace and the state it was given.
\<close>

theorem onNextFrameAvailable_dropped:
  assumes "mDataCBTimestamp s = NULL \<or> mMessageEnabler s AND CAMERA_MSG_VIDEO_FRAME = 0 \<or>
           \<not> mVideoRecEnabled s"
  shows "onNextFrameAvailable code frame timestamp camera_dev s = (s, [], Inr ()) \<and>
         allocated (fst (snd (onNextFrameAvailable code frame timestamp camera_dev s))) = [] \<and>
         delivered (fst (snd (onNextFrameAvailable code frame timestamp camera_dev s))) = []"
proof -
  from assms have "onNextFrameAvailable code frame timestamp camera_dev s = (s, [], Inr ())"
    by (auto simp add: onNextFrameAvailable_def)
  then show ?thesis by simp
qed

text \<open>
  Three instances, each with a frame at 40 ms that the admission check would pass: a new object
  with the video-frame message enabled and recording started but no callbacks; all
  callbacks installed and recording started but the message not enabled; all callbacks
  installed and the message enabled but recording not started.
\<close>

theorem onNextFrameAvailable_dropped_witness:
  "mDataCBTimestamp
     (fst (enableVideoRecording 30 (enableMessage CAMERA_MSG_VIDEO_FRAME CallbackNotifier))) = NULL \<and>
   onNextFrameAvailable fixedBuffer (Ptr 7) 40000000 \<lparr> getFrameBufferSize = 4096 \<rparr>
     (fst (enableVideoRecording 30 (enableMessage CAMERA_MSG_VIDEO_FRAME CallbackNotifier))) =
   (fst (enableVideoRecording 30 (enableMessage CAMERA_MSG_VIDEO_FRAME CallbackNotifier)),
    [], Inr ()) \<and>
   mMessageEnabler
     (fst (enableVideoRecording 30
            (setCallbacks (Ptr 1) (Ptr 2) (Ptr 3) (Ptr 4) (Ptr 5) CallbackNotifier)))
     AND CAMERA_MSG_VIDEO_FRAME = 0 \<and>
   onNextFrameAvailable fixedBuffer (Ptr 7) 40000000 \<lparr> getFrameBufferSize = 4096 \<rparr>
     (fst (enableVideoRecording 30
            (setCallbacks (Ptr 1) (Ptr 2) (Ptr 3) (Ptr 4) (Ptr 5) CallbackNotifier))) =
   (fst (enableVideoRecording 30
          (setCallbacks (Ptr 1) (Ptr 2) (Ptr 3) (Ptr 4) (Ptr 5) CallbackNotifier)),
    [], Inr ()) \<and>
   \<not> mVideoRecEnabled
       (enableMessage CAMERA_MSG_VIDEO_FRAME
         (setCallbacks (Ptr 1) (Ptr 2) (Ptr 3) (Ptr 4) (Ptr 5) CallbackNotifier)) \<and>
   onNextFrameAvailable fixedBuffer (Ptr 7) 40000000 \<lparr> getFrameBufferSize = 4096 \<rparr>
     (enableMessage CAMERA_MSG_VIDEO_FRAME
       (setCallbacks (Ptr 1) (Ptr 2) (Ptr 3) (Ptr 4) (Ptr 5) CallbackNotifier)) =
   (enableMessage CAMERA_MSG_VIDEO_FRAME
      (setCallbacks (Ptr 1) (Ptr 2) (Ptr 3) (Ptr 4) (Ptr 5) CallbackNotifier),
    [], Inr ())"
  using onNextFrameAvailable_dropped
      [of "fst (enableVideoRecording 30 (enableMessage CAMERA_MSG_VIDEO_FRAME CallbackNotifier))"
          fixedBuffer "Ptr 7" 40000000 "\<lparr> getFrameBufferSize = 4096 \<rparr>"]
    onNextFrameAvailable_dropped
      [of "fst (enableVideoRecording 30
                 (setCallbacks (Ptr 1) (Ptr 2) (Ptr 3) (Ptr 4) (Ptr 5) CallbackNotifier))"
          fixedBuffer "Ptr 7" 40000000 "\<lparr> getFrameBufferSize = 4096 \<rparr>"]
    onNextFrameAvailable_dropped
      [of "enableMessage CAMERA_MSG_VIDEO_FRAME
            (setCallbacks (Ptr 1) (Ptr 2) (Ptr 3) (Ptr 4) (Ptr 5) CallbackNotifier)"
          fixedBuffer "Ptr 7" 40000000 "\<lparr> getFrameBufferSize = 4096 \<rparr>"]
  by (simp add: enableVideoRecording_def enableMessage_def setCallbacks_def
      CallbackNotifier_def CAMERA_MSG_VIDEO_FRAME_def)

text \<open>
  Claim C10: for every state, frame, timestamp and device, \<open>onNextFrameAvailable\<close> leaves
  the message mask, the four callbacks, the opaque cookie, the recording flag and the
  frame interval as they were. The state it leaves is the one it was given, or that
  state with the timestamp stored in \<open>mLastFrameTimestamp\<close>; the latter only when the
  video-frame message is enabled, the timestamped-data callback is set, recording is
  enabled and the admission check passes the timestamp.
\<close>

theorem onNextFrameAvailable_frame:
  "mMessageEnabler (fst (onNextFrameAvailable code frame t camera_dev s)) = mMessageEnabler s \<and>
   mNotifyCB (fst (onNextFrameAvailable code frame t camera_dev s)) = mNotifyCB s \<and>
   mDataCB (fst (onNextFrameAvailable code frame t camera_dev s)) = mDataCB s \<and>
   mDataCBTimestamp (fst (onNextFrameAvailable code frame t camera_dev s)) = mDataCBTimestamp s \<and>
   mGetMemoryCB (fst (onNextFrameAvailable code frame t camera_dev s)) = mGetMemoryCB s \<and>
   mCBOpaque (fst (onNextFrameAvailable code frame t camera_dev s)) = mCBOpaque s \<and>
   mVideoRecEnabled (fst (onNextFrameAvailable code frame t camera_dev s)) = mVideoRecEnabled s \<and>
   mFrameRefreshFreq (fst (onNextFrameAvailable code frame t camera_dev s)) = mFrameRefreshFreq s \<and>
   (fst (onNextFrameAvailable code frame t camera_dev s) = s \<or>
    fst (onNextFrameAvailable code frame t camera_dev s) = s\<lparr> mLastFrameTimestamp := t \<rparr>) \<and>
   (fst (onNextFrameAvailable code frame t camera_dev s) \<noteq> s \<longrightarrow>
      mMessageEnabler s AND CAMERA_MSG_VIDEO_FRAME \<noteq> 0 \<and> mDataCBTimestamp s \<noteq> NULL \<and>
      mVideoRecEnabled s \<and> fst (isNewVideoFrameTime t s))"
proof -
  have "fst (onNextFrameAvailable code frame t camera_dev s) = s \<or>
        (fst (onNextFrameAvailable code frame t camera_dev s) = s\<lparr> mLastFrameTimestamp := t \<rparr> \<and>
         mMessageEnabler s AND CAMERA_MSG_VIDEO_FRAME \<noteq> 0 \<and> mDataCBTimestamp s \<noteq> NULL \<and>
         mVideoRecEnabled s \<and> fst (isNewVideoFrameTime t s))"
    by (auto simp add: onNextFrameAvailable_def isNewVideoFrameTime_def Let_def
        split: ptr.splits)
  then show ?thesis by auto
qed

text \<open>
  An instance: in the configured, recording state a frame at 40 ms is admitted; the
  state afterwards differs from the one before in \<open>mLastFrameTimestamp\<close> alone.
\<close>

theorem onNextFrameAvailable_frame_witness:
  "fst (onNextFrameAvailable fixedBuffer (Ptr 7) 40000000 \<lparr> getFrameBufferSize = 4096 \<rparr>
         (fst (enableVideoRecording 30
                (enableMessage CAMERA_MSG_VIDEO_FRAME
                  (setCallbacks (Ptr 1) (Ptr 2) (Ptr 3) (Ptr 4) (Ptr 5) CallbackNotifier)))))
     \<noteq> fst (enableVideoRecording 30
              (enableMessage CAMERA_MSG_VIDEO_FRAME
                (setCallbacks (Ptr 1) (Ptr 2) (Ptr 3) (Ptr 4) (Ptr 5) CallbackNotifier))) \<and>
   fst (onNextFrameAvailable fixedBuffer (Ptr 7) 40000000 \<lparr> getFrameBufferSize = 4096 \<rparr>
         (fst (enableVideoRecording 30
                (enableMessage CAMERA_MSG_VIDEO_FRAME
                  (setCallbacks (Ptr 1) (Ptr 2) (Ptr 3) (Ptr 4) (Ptr 5) CallbackNotifier)))))
     = (fst (enableVideoRecording 30
              (enableMessage CAMERA_MSG_VIDEO_FRAME
                (setCallbacks (Ptr 1) (Ptr 2) (Ptr 3) (Ptr 4) (Ptr 5) CallbackNotifier))))
         \<lparr> mLastFrameTimestamp := 40000000 \<rparr> \<and>
   fst (isNewVideoFrameTime 40000000
         (fst (enableVideoRecording 30
                (enableMessage CAMERA_MSG_VIDEO_FRAME
                  (setCallbacks (Ptr 1) (Ptr 2) (Ptr 3) (Ptr 4) (Ptr 5) CallbackNotifier)))))"
  using onNextFrameAvailable_frame
      [of fixedBuffer "Ptr 7" 40000000 "\<lparr> getFrameBufferSize = 4096 \<rparr>"
          "fst (enableVideoRecording 30
                 (enableMessage CAMERA_MSG_VIDEO_FRAME
                   (setCallbacks (Ptr 1) (Ptr 2) (Ptr 3) (Ptr 4) (Ptr 5) CallbackNotifier)))"]
  unfolding recording_at_30_fps
  by (simp add: onNextFrameAvailable_def isNewVideoFrameTime_def
      fixedBuffer_def CAMERA_MSG_VIDEO_FRAME_def word_sle_eq)

text \<open>
  Claim C2 asks that \<open>onNextFrameAvailable\<close> be a no-op whenever the timestamped-data
  callback or the request-memory callback is null. The guard tests \<open>mDataCBTimestamp\<close>
  but not \<open>mGetMemoryCB\<close>. With the other three callbacks installed, the video-frame
  message enabled, recording started at 30 frames per second and \<open>mGetMemoryCB\<close> null, a
  frame at 40 ms passes the guard: the timestamp is stored and the null \<open>mGetMemoryCB\<close>
  is called.
\<close>

theorem onNextFrameAvailable_null_allocator:
  "mGetMemoryCB
     (fst (enableVideoRecording 30
            (enableMessage CAMERA_MSG_VIDEO_FRAME
              (setCallbacks (Ptr 1) (Ptr 2) (Ptr 3) NULL (Ptr 5) CallbackNotifier)))) = NULL \<and>
   onNextFrameAvailable fixedBuffer (Ptr 7) 40000000 \<lparr> getFrameBufferSize = 4096 \<rparr>
     (fst (enableVideoRecording 30
            (enableMessage CAMERA_MSG_VIDEO_FRAME
              (setCallbacks (Ptr 1) (Ptr 2) (Ptr 3) NULL (Ptr 5) CallbackNotifier)))) =
   ((fst (enableVideoRecording 30
           (enableMessage CAMERA_MSG_VIDEO_FRAME
             (setCallbacks (Ptr 1) (Ptr 2) (Ptr 3) NULL (Ptr 5) CallbackNotifier))))
      \<lparr> mLastFrameTimestamp := 40000000 \<rparr>,
    [], Inl NullFunctionCall)"
  unfolding recording_at_30_fps
  by (simp add: onNextFrameAvailable_def isNewVideoFrameTime_def
      CAMERA_MSG_VIDEO_FRAME_def word_sle_eq)

text \<open>
  The half of the claim that the guard does implement: with the timestamped-data
  callback null the call changes nothing and calls nothing.
\<close>

lemma onNextFrameAvailable_null_data_callback:
  "mDataCBTimestamp s = NULL \<Longrightarrow>
     onNextFrameAvailable code frame timestamp camera_dev s = (s, [], Inr ())"
  by (simp add: onNextFrameAvailable_def)

section \<open>The end-to-end scenario\<close>

text \<open>
  Claim C5, as amended: with a full callback set installed, the video-frame message
  enabled and recording started at 30 frames per second, frames of 4096 bytes at the
  timestamps 0, 10000000 and 40000000, and an allocator that returns a usable buffer,
  exactly one frame is delivered, the one at 40000000: one allocator call of size 4096
  (fd -1, one buffer, null user), the copy of 4096 bytes, then one timestamped-data
  callback with index 0 and the opaque cookie. The frames at 0 and at 10000000 are
  dropped, both being less than the interval of 33333333 ns after the reference 0.
\<close>

theorem scenario_delivers_one_frame:
  assumes "code g (- 1) 4096 1 NULL = Ptr m" and "data m \<noteq> NULL"
  shows "feedFrames code \<lparr> getFrameBufferSize = 4096 \<rparr>
           [(f0, 0), (f1, 10000000), (f2, 40000000)]
           (fst (enableVideoRecording 30
                  (enableMessage CAMERA_MSG_VIDEO_FRAME
                    (setCallbacks (Ptr n) (Ptr d) (Ptr ts) (Ptr g) u CallbackNotifier)))) =
         ((fst (enableVideoRecording 30
                 (enableMessage CAMERA_MSG_VIDEO_FRAME
                   (setCallbacks (Ptr n) (Ptr d) (Ptr ts) (Ptr g) u CallbackNotifier))))
            \<lparr> mLastFrameTimestamp := 40000000 \<rparr>,
          [GetMemory (Ptr g) (- 1) 4096 1 NULL,
           Memcpy (data m) f2 4096,
           DataCBTimestamp (Ptr ts) 40000000 CAMERA_MSG_VIDEO_FRAME (Ptr m) 0 u],
          Inr ())"
  using assms
  unfolding recording_at_30_fps
  by (simp add: onNextFrameAvailable_def isNewVideoFrameTime_def
      CAMERA_MSG_VIDEO_FRAME_def word_sle_eq)

text \<open>An instance, with the allocator that always returns the buffer at 4096.\<close>

theorem scenario_delivers_one_frame_witness:
  "fixedBuffer 4 (- 1) 4096 1 NULL = Ptr \<lparr> data = Ptr 4096 \<rparr> \<and>
   data \<lparr> data = Ptr 4096 \<rparr> \<noteq> NULL \<and>
   fst (snd (feedFrames fixedBuffer \<lparr> getFrameBufferSize = 4096 \<rparr>
     [(Ptr 7, 0), (Ptr 8, 10000000), (Ptr 9, 40000000)]
     (fst (enableVideoRecording 30
            (enableMessage CAMERA_MSG_VIDEO_FRAME
              (setCallbacks (Ptr 1) (Ptr 2) (Ptr 3) (Ptr 4) (Ptr 5) CallbackNotifier)))))) =
   [GetMemory (Ptr 4) (- 1) 4096 1 NULL,
    Memcpy (Ptr 4096) (Ptr 9) 4096,
    DataCBTimestamp (Ptr 3) 40000000 CAMERA_MSG_VIDEO_FRAME (Ptr \<lparr> data = Ptr 4096 \<rparr>) 0 (Ptr 5)]"
  using scenario_delivers_one_frame
      [of fixedBuffer 4 "\<lparr> data = Ptr 4096 \<rparr>" "Ptr 7" "Ptr 8" "Ptr 9" 1 2 3 "Ptr 5"]
  by (simp add: fixedBuffer_def)

text \<open>
  In the scenario as first stated two frames are expected, at 0 and at 40000000. The
  code delivers one, at 40000000, after one allocation.
\<close>

theorem scenario_not_two_frames:
  "delivered (fst (snd (feedFrames fixedBuffer \<lparr> getFrameBufferSize = 4096 \<rparr>
     [(Ptr 7, 0), (Ptr 8, 10000000), (Ptr 9, 40000000)]
     (fst (enableVideoRecording 30
            (enableMessage CAMERA_MSG_VIDEO_FRAME
              (setCallbacks (Ptr 1) (Ptr 2) (Ptr 3) (Ptr 4) (Ptr 5) CallbackNotifier))))))) =
     [(40000000, 0)] \<and>
   allocated (fst (snd (feedFrames fixedBuffer \<lparr> getFrameBufferSize = 4096 \<rparr>
     [(Ptr 7, 0), (Ptr 8, 10000000), (Ptr 9, 40000000)]
     (fst (enableVideoRecording 30
            (enableMessage CAMERA_MSG_VIDEO_FRAME
              (setCallbacks (Ptr 1) (Ptr 2) (Ptr 3) (Ptr 4) (Ptr 5) CallbackNotifier))))))) =
     [4096] \<and>
   delivered (fst (snd (feedFrames fixedBuffer \<lparr> getFrameBufferSize = 4096 \<rparr>
     [(Ptr 7, 0), (Ptr 8, 10000000), (Ptr 9, 40000000)]
     (fst (enableVideoRecording 30
            (enableMessage CAMERA_MSG_VIDEO_FRAME
              (setCallbacks (Ptr 1) (Ptr 2) (Ptr 3) (Ptr 4) (Ptr 5) CallbackNotifier))))))) \<noteq>
     [(0, 0), (40000000, 0)]"
  unfolding recording_at_30_fps
  by (simp add: onNextFrameAvailable_def isNewVideoFrameTime_def
      fixedBuffer_def CAMERA_MSG_VIDEO_FRAME_def word_sle_eq)

end
